theory Spec2Isabelle
  imports Complex_Main
begin

section \<open>Surfaces and masks (the pygame collaborator)\<close>

text \<open>
  The image files loaded at module level (\<^verbatim>\<open>imgs/pipe.png\<close>, \<^verbatim>\<open>imgs/base.png\<close>,
  \<^verbatim>\<open>imgs/bird1.png\<close> ...) are not part of the sources, so every surface is a parameter.
  A surface is its size together with the coordinates of its opaque pixels, which is all
  that \<^verbatim>\<open>get_width\<close>, \<^verbatim>\<open>get_height\<close> and \<^verbatim>\<open>pygame.mask.from_surface\<close> read from it.
\<close>

record surface =
  get_width :: int
  get_height :: int
  opaque_pixels :: "(int \<times> int) list"

type_synonym mask = "(int \<times> int) list"

definition from_surface :: "surface \<Rightarrow> mask" where
  "from_surface s = opaque_pixels s"

text \<open>
  \<^verbatim>\<open>Mask.overlap(other, offset)\<close> returns a point of intersection of the two masks, the
  other mask's origin placed at \<^verbatim>\<open>offset\<close> from this one's, or \<^verbatim>\<open>None\<close>. The game only
  tests the result for truthiness, and a point (a non-empty tuple) is always true.
\<close>

definition overlap :: "mask \<Rightarrow> mask \<Rightarrow> int \<times> int \<Rightarrow> (int \<times> int) option" where
  "overlap m other offset =
     find (\<lambda>(i, j). (i - fst offset, j - snd offset) \<in> set other) m"

text \<open>\<^verbatim>\<open>pygame.transform.flip(s, False, True)\<close>: the surface mirrored top to bottom.\<close>

definition flip_vertical :: "surface \<Rightarrow> surface" where
  "flip_vertical s =
     s\<lparr>opaque_pixels := map (\<lambda>(i, j). (i, get_height s - 1 - j)) (opaque_pixels s)\<rparr>"

text \<open>The module's constants, after \<^verbatim>\<open>scale2x\<close>; \<^verbatim>\<open>BIRD_IMAGES\<close> is a list of three.\<close>

record assets =
  PIPE_IMAGE :: surface
  GROUND_IMAGE :: surface
  bird1 :: surface
  bird2 :: surface
  bird3 :: surface

definition BIRD_IMAGES :: "assets \<Rightarrow> surface list" where
  "BIRD_IMAGES a = [bird1 a, bird2 a, bird3 a]"

definition SCREEN_WIDTH :: int where
  "SCREEN_WIDTH = 500"

definition SCREEN_HEIGHT :: int where
  "SCREEN_HEIGHT = 800"

section \<open>Bird\<close>

text \<open>
  \<^verbatim>\<open>x\<close>, \<^verbatim>\<open>angle\<close>, \<^verbatim>\<open>time\<close> and \<^verbatim>\<open>image_count\<close> are Python ints. \<^verbatim>\<open>y\<close>, \<^verbatim>\<open>speed\<close> and
  \<^verbatim>\<open>height\<close> start as ints and are floats once the bird has jumped or moved; they are
  rationals here, and the arithmetic of \<open>displacement\<close> and \<open>Bird_move\<close> below is exact
  rational arithmetic.

  This is the arithmetic of the code only where no float operation rounds. The
  predicate \<open>float_exact\<close>, defined after \<open>Bird_move\<close>, gives such a range: \<open>y\<close>,
  \<open>height\<close> and \<open>speed\<close> are multiples of one half of magnitude at most \<open>2\<^sup>4\<^sup>0\<close>,
  \<open>2\<^sup>4\<^sup>0\<close> and \<open>2\<^sup>2\<^sup>0\<close>, and \<open>time\<close> is at most \<open>2\<^sup>2\<^sup>0\<close> in magnitude. There every
  operand and every result of \<^verbatim>\<open>move\<close> is a multiple of one half below \<open>2\<^sup>5\<^sup>2\<close> in
  magnitude, hence a float, and a float operation whose exact result is a float returns
  it; the mixed int and float operations and comparisons of Python agree with the
  rational ones there as well. Outside that range (a bird at \<open>y = 2\<^sup>5\<^sup>3\<close>, say) the code
  rounds and the definitions below say nothing about it. Every bird that the game
  moves is inside the range.
\<close>

record bird =
  bird_x :: int
  bird_y :: rat
  bird_angle :: int
  bird_speed :: rat
  bird_height :: rat
  bird_time :: int
  bird_image_count :: int
  bird_image :: surface

definition IMGS :: "assets \<Rightarrow> surface list" where
  "IMGS a = BIRD_IMAGES a"

definition MAX_ROTATION :: int where
  "MAX_ROTATION = 25"

definition ROTATION_SPEED :: int where
  "ROTATION_SPEED = 20"

definition ANIMATION_TIME :: int where
  "ANIMATION_TIME = 5"

definition Bird_init :: "assets \<Rightarrow> int \<Rightarrow> rat \<Rightarrow> bird" where
  "Bird_init a x y =
     \<lparr>bird_x = x, bird_y = y, bird_angle = 0, bird_speed = 0, bird_height = y,
      bird_time = 0, bird_image_count = 0, bird_image = IMGS a ! 0\<rparr>"

definition jump :: "bird \<Rightarrow> bird" where
  "jump b = b\<lparr>bird_speed := - 10.5, bird_time := 0, bird_height := bird_y b\<rparr>"

text \<open>
  The local variable \<^verbatim>\<open>displacement\<close> of \<^verbatim>\<open>Bird.move\<close>, from the incremented time. It is
  the value the code computes when \<open>v0\<close> is a multiple of one half and \<open>t\<close> and \<open>v0\<close> are
  at most \<open>2\<^sup>2\<^sup>0 + 1\<close> in magnitude.
\<close>

definition displacement :: "int \<Rightarrow> rat \<Rightarrow> rat" where
  "displacement t v0 =
     (let d = 1.5 * of_int (t ^ 2) + v0 * of_int t
      in if d > 16 then 16 else if d < 0 then d - 2 else d)"

text \<open>
  \<^verbatim>\<open>Bird.move\<close>, statement by statement. It is what the code computes on every bird that
  satisfies \<open>float_exact\<close> below; the theorems about it that depend on the arithmetic
  carry that hypothesis.
\<close>

definition Bird_move :: "bird \<Rightarrow> bird" where
  "Bird_move b =
     (let b1 = b\<lparr>bird_time := bird_time b + 1\<rparr>;
          d = displacement (bird_time b1) (bird_speed b1);
          b2 = b1\<lparr>bird_y := bird_y b1 + d\<rparr>
      in if d < 0 \<or> bird_y b2 < bird_height b2 + 50
         then b2\<lparr>bird_angle := max (bird_angle b2) MAX_ROTATION\<rparr>
         else if bird_angle b2 > - 90
              then b2\<lparr>bird_angle := bird_angle b2 - ROTATION_SPEED\<rparr>
              else b2)"

text \<open>
  The range in which \<open>Bird_move\<close> is the code: a value is exact when it is a multiple of
  one half below \<open>2\<^sup>5\<^sup>2\<close> in magnitude, which a float holds without rounding.
\<close>

definition half_integer :: "rat \<Rightarrow> bool" where
  "half_integer q = (of_int \<lfloor>2 * q\<rfloor> = 2 * q)"

definition exact_value :: "rat \<Rightarrow> bool" where
  "exact_value q = (half_integer q \<and> \<bar>q\<bar> < 2 ^ 52)"

definition float_exact :: "bird \<Rightarrow> bool" where
  "float_exact b =
     (half_integer (bird_y b) \<and> half_integer (bird_height b) \<and> half_integer (bird_speed b) \<and>
      \<bar>bird_y b\<bar> \<le> 2 ^ 40 \<and> \<bar>bird_height b\<bar> \<le> 2 ^ 40 \<and> \<bar>bird_speed b\<bar> \<le> 2 ^ 20 \<and>
      \<bar>bird_time b\<bar> \<le> 2 ^ 20)"

text \<open>
  The last statement of \<^verbatim>\<open>Bird.move\<close> as a function of the outcome \<open>up\<close> of its test
  \<^verbatim>\<open>displacement < 0 or self.y < (self.height + 50)\<close> and of the angle. Whatever the
  float arithmetic makes of the test, the new angle is \<open>tilt\<close> of its outcome.
\<close>

definition tilt :: "bool \<Rightarrow> int \<Rightarrow> int" where
  "tilt up angle =
     (if up then max angle MAX_ROTATION
      else if angle > - 90 then angle - ROTATION_SPEED
      else angle)"

fun tilts :: "bool list \<Rightarrow> int \<Rightarrow> int" where
  "tilts [] angle = angle"
| "tilts (up # ups) angle = tilts ups (tilt up angle)"

text \<open>
  \<^verbatim>\<open>Bird.draw\<close>: the part that changes the bird (the frame counter and the current
  image); rotating and blitting the image change the screen only.
\<close>

definition Bird_draw :: "assets \<Rightarrow> bird \<Rightarrow> bird" where
  "Bird_draw a b =
     (let b1 = b\<lparr>bird_image_count := bird_image_count b + 1\<rparr>;
          c = bird_image_count b1;
          b2 = (if c < ANIMATION_TIME then b1\<lparr>bird_image := IMGS a ! 0\<rparr>
                else if c < ANIMATION_TIME * 2 then b1\<lparr>bird_image := IMGS a ! 1\<rparr>
                else if c < ANIMATION_TIME * 3 then b1\<lparr>bird_image := IMGS a ! 2\<rparr>
                else if c < ANIMATION_TIME * 4 then b1\<lparr>bird_image := IMGS a ! 1\<rparr>
                else if c \<ge> ANIMATION_TIME * 4 + 1
                     then b1\<lparr>bird_image := IMGS a ! 0, bird_image_count := 0\<rparr>
                else b1)
      in if bird_angle b2 \<le> - 80
         then b2\<lparr>bird_image := IMGS a ! 1, bird_image_count := ANIMATION_TIME * 2\<rparr>
         else b2)"

definition get_mask :: "bird \<Rightarrow> mask" where
  "get_mask b = from_surface (bird_image b)"

text \<open>A sequence of \<^verbatim>\<open>jump\<close> and \<^verbatim>\<open>move\<close> calls on one bird, and a sequence of draws.\<close>

datatype action = Jump | Move

fun run :: "action list \<Rightarrow> bird \<Rightarrow> bird" where
  "run [] b = b"
| "run (Jump # as) b = run as (jump b)"
| "run (Move # as) b = run as (Bird_move b)"

text \<open>Every \<^verbatim>\<open>move\<close> of the sequence is called on a bird in the exact range.\<close>

fun run_exact :: "action list \<Rightarrow> bird \<Rightarrow> bool" where
  "run_exact [] b = True"
| "run_exact (Jump # as) b = run_exact as (jump b)"
| "run_exact (Move # as) b = (float_exact b \<and> run_exact as (Bird_move b))"

text \<open>The sum of the displacements of the first \<open>n\<close> moves after an impulse \<open>v0\<close>.\<close>

fun flight :: "nat \<Rightarrow> rat \<Rightarrow> rat" where
  "flight 0 v0 = 0"
| "flight (Suc n) v0 = flight n v0 + displacement (int (Suc n)) v0"

fun draws :: "assets \<Rightarrow> nat \<Rightarrow> bird \<Rightarrow> bird" where
  "draws a 0 b = b"
| "draws a (Suc n) b = draws a n (Bird_draw a b)"

section \<open>Pipe\<close>

text \<open>
  \<^verbatim>\<open>random.randrange(start, stop)\<close> of the standard library returns some integer
  \<^verbatim>\<open>n\<close> with \<^verbatim>\<open>start <= n < stop\<close>. The randomness is the explicit argument \<open>r\<close>; every
  integer of the range is the draw of some \<open>r\<close>.
\<close>

definition randrange :: "int \<Rightarrow> int \<Rightarrow> nat \<Rightarrow> int" where
  "randrange start stop r = start + int r mod (stop - start)"

text \<open>
  Python's \<^verbatim>\<open>round\<close> on a float: to the nearest integer, a tie to the even one.
\<close>

definition py_round :: "rat \<Rightarrow> int" where
  "py_round q =
     (let f = \<lfloor>q\<rfloor>; d = q - of_int f
      in if d < 1 / 2 then f else if d > 1 / 2 then f + 1
         else if even f then f else f + 1)"

record pipe =
  pipe_x :: int
  pipe_height :: int
  top_pos :: int
  bottom_pos :: int
  PIPE_TOP :: surface
  PIPE_BOTTOM :: surface
  passed :: bool

definition DISTANCE :: int where
  "DISTANCE = 200"

definition Pipe_SPEED :: int where
  "Pipe_SPEED = 5"

definition set_height :: "nat \<Rightarrow> pipe \<Rightarrow> pipe" where
  "set_height r p =
     (let p1 = p\<lparr>pipe_height := randrange 50 475 r\<rparr>;
          p2 = p1\<lparr>top_pos := pipe_height p1 - get_height (PIPE_TOP p1)\<rparr>
      in p2\<lparr>bottom_pos := pipe_height p2 + DISTANCE\<rparr>)"

definition Pipe_init :: "assets \<Rightarrow> int \<Rightarrow> nat \<Rightarrow> pipe" where
  "Pipe_init a x r =
     set_height r
       \<lparr>pipe_x = x, pipe_height = 0, top_pos = 0, bottom_pos = 0,
        PIPE_TOP = flip_vertical (PIPE_IMAGE a), PIPE_BOTTOM = PIPE_IMAGE a,
        passed = False\<rparr>"

definition Pipe_move :: "pipe \<Rightarrow> pipe" where
  "Pipe_move p = p\<lparr>pipe_x := pipe_x p - Pipe_SPEED\<rparr>"

text \<open>
  \<^verbatim>\<open>Pipe.collide\<close> is a method on two mutable objects, so its model returns the boolean
  together with the pipe and the bird as the call leaves them.
\<close>

definition collide :: "pipe \<Rightarrow> bird \<Rightarrow> bool \<times> pipe \<times> bird" where
  "collide p b =
     (let bird_mask = get_mask b;
          top_mask = from_surface (PIPE_TOP p);
          bottom_mask = from_surface (PIPE_BOTTOM p);
          top_offset = (pipe_x p - bird_x b, top_pos p - py_round (bird_y b));
          bottom_offset = (pipe_x p - bird_x b, bottom_pos p - py_round (bird_y b));
          top_point = overlap bird_mask top_mask top_offset;
          bottom_point = overlap bird_mask bottom_mask bottom_offset
      in if top_point \<noteq> None \<or> bottom_point \<noteq> None then (True, p, b) else (False, p, b))"

section \<open>Ground\<close>

record ground =
  ground_y :: int
  x1 :: int
  x2 :: int

definition Ground_SPEED :: int where
  "Ground_SPEED = 5"

definition WIDTH :: "assets \<Rightarrow> int" where
  "WIDTH a = get_width (GROUND_IMAGE a)"

definition Ground_init :: "assets \<Rightarrow> int \<Rightarrow> ground" where
  "Ground_init a y = \<lparr>ground_y = y, x1 = 0, x2 = WIDTH a\<rparr>"

definition Ground_move :: "assets \<Rightarrow> ground \<Rightarrow> ground" where
  "Ground_move a g =
     (let g1 = g\<lparr>x1 := x1 g - Ground_SPEED\<rparr>;
          g2 = g1\<lparr>x2 := x2 g1 - Ground_SPEED\<rparr>;
          g3 = (if x1 g2 + WIDTH a < 0 then g2\<lparr>x1 := x2 g2 + WIDTH a\<rparr> else g2)
      in if x2 g3 + WIDTH a < 0 then g3\<lparr>x2 := x1 g3 + WIDTH a\<rparr> else g3)"

fun ground_moves :: "assets \<Rightarrow> nat \<Rightarrow> ground \<Rightarrow> ground" where
  "ground_moves a 0 g = g"
| "ground_moves a (Suc n) g = ground_moves a n (Ground_move a g)"

section \<open>The main loop\<close>

record game =
  birds :: "bird list"
  ground :: ground
  pipes :: "pipe list"
  score :: int

text \<open>
  \<^verbatim>\<open>main\<close> starts a session; the seed pipe's random draw is \<open>r\<close>.
\<close>

definition main_init :: "assets \<Rightarrow> nat \<Rightarrow> game" where
  "main_init a r =
     \<lparr>birds = [Bird_init a 230 350], ground = Ground_init a 730,
      pipes = [Pipe_init a 700 r], score = 0\<rparr>"

datatype key = K_SPACE | K_OTHER

datatype event = QUIT | KEYDOWN key | OTHER_EVENT

text \<open>
  One pass of the \<^verbatim>\<open>while running\<close> loop ends in one of three ways: the loop goes on
  with the next state; a bird has died, so \<^verbatim>\<open>game_over_screen(screen, score)\<close> shows the
  score and \<^verbatim>\<open>main()\<close> is entered afresh (the old session's state is never used again,
  since only \<^verbatim>\<open>quit()\<close>, which raises \<^verbatim>\<open>SystemExit\<close>, leaves the new loop); or a
  \<^verbatim>\<open>QUIT\<close> event has ended the process.
\<close>

datatype session = Running game | Ended int | Exited

text \<open>The event loop: \<open>None\<close> when \<^verbatim>\<open>quit()\<close> is reached.\<close>

fun handle_events :: "event list \<Rightarrow> bird list \<Rightarrow> bird list option" where
  "handle_events [] bs = Some bs"
| "handle_events (e # es) bs =
     (if e = QUIT then None
      else if e = KEYDOWN K_SPACE then handle_events es (map jump bs)
      else handle_events es bs)"

text \<open>
  The inner loop over the birds for one pipe, with the flag \<^verbatim>\<open>add_pipe\<close>: \<open>None\<close> when
  the pipe collides with a bird.
\<close>

fun pipe_birds :: "pipe \<Rightarrow> bird list \<Rightarrow> bool \<Rightarrow> (pipe \<times> bird list \<times> bool) option" where
  "pipe_birds p [] add_pipe = Some (p, [], add_pipe)"
| "pipe_birds p (b # bs) add_pipe =
     (case collide p b of
        (hit, p1, b1) \<Rightarrow>
          if hit then None
          else (case (if \<not> passed p1 \<and> bird_x b1 > pipe_x p1
                      then pipe_birds (p1\<lparr>passed := True\<rparr>) bs True
                      else pipe_birds p1 bs add_pipe) of
                  None \<Rightarrow> None
                | Some (p2, bs2, add2) \<Rightarrow> Some (p2, b1 # bs2, add2)))"

text \<open>
  The loop over the pipes. Each pipe comes back moved, paired with whether it was
  appended to \<^verbatim>\<open>remove_pipes\<close>.
\<close>

fun sweep :: "pipe list \<Rightarrow> bird list \<Rightarrow> bool \<Rightarrow> ((pipe \<times> bool) list \<times> bird list \<times> bool) option" where
  "sweep [] bs add_pipe = Some ([], bs, add_pipe)"
| "sweep (p # ps) bs add_pipe =
     (case pipe_birds p bs add_pipe of
        None \<Rightarrow> None
      | Some (p1, bs1, add1) \<Rightarrow>
          (let p2 = Pipe_move p1;
               remove = (pipe_x p2 + get_width (PIPE_TOP p2) < 0)
           in case sweep ps bs1 add1 of
                None \<Rightarrow> None
              | Some (rest, bs2, add2) \<Rightarrow> Some ((p2, remove) # rest, bs2, add2)))"

text \<open>
  \<^verbatim>\<open>pipes.remove(pipe)\<close> for every pipe of \<^verbatim>\<open>remove_pipes\<close>: pipes compare by identity,
  so exactly the flagged ones go, and the others keep their order.
\<close>

definition retire :: "(pipe \<times> bool) list \<Rightarrow> pipe list" where
  "retire swept = map fst (filter (\<lambda>(p, remove). \<not> remove) swept)"

definition out_of_bounds :: "ground \<Rightarrow> bird \<Rightarrow> bool" where
  "out_of_bounds g b =
     (bird_y b + of_int (get_height (bird_image b)) > of_int (ground_y g) \<or> bird_y b < 0)"

text \<open>
  One pass of the loop on the events \<open>es\<close> polled in it; \<open>r\<close> is the random draw of the
  pipe created in this pass, if one is.
\<close>

definition tick :: "assets \<Rightarrow> event list \<Rightarrow> nat \<Rightarrow> game \<Rightarrow> session" where
  "tick a es r g =
     (case handle_events es (birds g) of
        None \<Rightarrow> Exited
      | Some bs0 \<Rightarrow>
          (let bs1 = map Bird_move bs0;
               ground1 = Ground_move a (ground g)
           in case sweep (pipes g) bs1 False of
                None \<Rightarrow> Ended (score g)
              | Some (swept, bs2, add_pipe) \<Rightarrow>
                  (let score1 = (if add_pipe then score g + 1 else score g);
                       pipes1 = retire (if add_pipe then swept @ [(Pipe_init a 600 r, False)]
                                        else swept)
                   in if list_ex (out_of_bounds ground1) bs2 then Ended score1
                      else Running \<lparr>birds = map (Bird_draw a) bs2, ground = ground1,
                                    pipes = pipes1, score = score1\<rparr>)))"

section \<open>Notions of the specification\<close>

text \<open>
  The specification speaks of masks that overlap and of the terminal conditions of a
  session. The next three definitions follow its words, to be compared with what
  \<open>collide\<close> and \<open>tick\<close> compute.

  A mask drawn with its origin at a screen position occupies these screen pixels. The
  collision test places the bird's mask at \<^verbatim>\<open>(x, round(y))\<close> and the two pipe masks at
  \<^verbatim>\<open>(x, top_pos)\<close> and \<^verbatim>\<open>(x, bottom_pos)\<close>.
\<close>

definition placed :: "int \<times> int \<Rightarrow> mask \<Rightarrow> (int \<times> int) set" where
  "placed pos m = (\<lambda>(i, j). (fst pos + i, snd pos + j)) ` set m"

text \<open>The bird's mask shares a screen pixel with the pipe's top or bottom mask.\<close>

definition masks_overlap :: "pipe \<Rightarrow> bird \<Rightarrow> bool" where
  "masks_overlap p b =
     (placed (bird_x b, py_round (bird_y b)) (get_mask b) \<inter>
        (placed (pipe_x p, top_pos p) (from_surface (PIPE_TOP p)) \<union>
         placed (pipe_x p, bottom_pos p) (from_surface (PIPE_BOTTOM p))) \<noteq> {})"

text \<open>
  The three terminal conditions of a session, on the bird as it stands after its move:
  a pipe is hit, the bottom edge is below the ground level, or the top edge is above
  the screen.
\<close>

definition terminal :: "ground \<Rightarrow> pipe list \<Rightarrow> bird \<Rightarrow> bool" where
  "terminal gr ps b =
     (list_ex (\<lambda>p. masks_overlap p b) ps \<or>
      bird_y b + of_int (get_height (bird_image b)) > of_int (ground_y gr) \<or>
      bird_y b < 0)"

text \<open>
  Names for three expressions of the sweep in \<^verbatim>\<open>main\<close>: the test
  \<^verbatim>\<open>not pipe.passed and bird.x > pipe.x\<close> for a bird at horizontal position \<open>bx\<close>, what
  the inner loop does to the pipe for one bird, and the retirement test
  \<^verbatim>\<open>pipe.x + pipe.PIPE_TOP.get_width() < 0\<close>.
\<close>

definition passes :: "int \<Rightarrow> pipe \<Rightarrow> bool" where
  "passes bx p = (\<not> passed p \<and> bx > pipe_x p)"

definition mark :: "int \<Rightarrow> pipe \<Rightarrow> pipe" where
  "mark bx p = (if passes bx p then p\<lparr>passed := True\<rparr> else p)"

definition off_screen :: "pipe \<Rightarrow> bool" where
  "off_screen p = (pipe_x p + get_width (PIPE_TOP p) < 0)"

section \<open>Example values\<close>

text \<open>
  Surfaces of the sizes of the game's images, with a few opaque pixels each, on which
  the definitions are evaluated.
\<close>

definition example_assets :: assets where
  "example_assets =
     \<lparr>PIPE_IMAGE = \<lparr>get_width = 104, get_height = 640,
                     opaque_pixels = [(0, 0), (103, 0), (52, 50), (0, 639), (103, 639)]\<rparr>,
      GROUND_IMAGE = \<lparr>get_width = 672, get_height = 224, opaque_pixels = []\<rparr>,
      bird1 = \<lparr>get_width = 68, get_height = 48, opaque_pixels = [(0, 0), (51, 0), (67, 47)]\<rparr>,
      bird2 = \<lparr>get_width = 68, get_height = 48, opaque_pixels = [(0, 1), (51, 0), (67, 47)]\<rparr>,
      bird3 = \<lparr>get_width = 68, get_height = 48, opaque_pixels = [(0, 2), (51, 0), (67, 47)]\<rparr>\<rparr>"

text \<open>A bird that has fallen for nine ticks and is just above the ground.\<close>

definition low_bird :: bird where
  "low_bird = (Bird_init example_assets 230 350)\<lparr>bird_y := 680, bird_time := 9, bird_angle := - 95\<rparr>"

definition low_game :: game where
  "low_game =
     \<lparr>birds = [low_bird], ground = Ground_init example_assets 730,
      pipes = [Pipe_init example_assets 700 0], score = 3\<rparr>"

text \<open>Two pipes that the bird, at \<open>x = 230\<close>, has not passed yet and passes in one tick.\<close>

definition two_behind :: game where
  "two_behind =
     \<lparr>birds = [Bird_init example_assets 230 350], ground = Ground_init example_assets 730,
      pipes = [Pipe_init example_assets 100 50, Pipe_init example_assets 200 200], score = 0\<rparr>"

text \<open>A pipe right under the freshly created bird, and the state after \<open>two_behind\<close>.\<close>

definition near_pipe :: pipe where
  "near_pipe = Pipe_init example_assets 229 50"

definition two_behind_next :: game where
  "two_behind_next =
     (case tick example_assets [] 7 two_behind of Running g' \<Rightarrow> g' | _ \<Rightarrow> two_behind)"

text \<open>What the sweep of \<open>two_behind\<close> hands on: the two pipes moved, none of them retired.\<close>

definition two_behind_swept :: "(pipe \<times> bool) list" where
  "two_behind_swept = map (\<lambda>p. (p, False)) (butlast (pipes two_behind_next))"

text \<open>A bird at angle 0 that is falling at full speed, well below its reference height.\<close>

definition falling_bird :: bird where
  "falling_bird = (Bird_init example_assets 230 350)\<lparr>bird_y := 450, bird_time := 9\<rparr>"

section \<open>Invariants\<close>

text \<open>The two ground tiles are adjacent, and the left one starts on or left of the screen's edge.\<close>

definition ground_inv :: "assets \<Rightarrow> ground \<Rightarrow> bool" where
  "ground_inv a g =
     ((x2 g = x1 g + WIDTH a \<and> - WIDTH a \<le> x1 g \<and> x1 g \<le> 0) \<or>
      (x1 g = x2 g + WIDTH a \<and> - WIDTH a \<le> x2 g \<and> x2 g \<le> 0))"

text \<open>The angles a bird can take when it starts from angle 0.\<close>

definition angle_set :: "int set" where
  "angle_set = {25, 5, - 15, - 35, - 55, - 75, - 95, 0, - 20, - 40, - 60, - 80, - 100}"

text \<open>
  What holds of the bird of a running session, whose ground is at \<open>y = 730\<close>: it is on
  the screen and above the ground, its speed is 0 or the impulse of a jump, and since
  its last jump (or its creation), at a position that was not negative, it has fallen
  by the displacements of \<open>time\<close> moves.
\<close>

definition session_bird :: "bird \<Rightarrow> bool" where
  "session_bird b =
     ((bird_speed b = 0 \<or> bird_speed b = - 10.5) \<and> 0 \<le> bird_time b \<and>
      half_integer (bird_y b) \<and> half_integer (bird_height b) \<and>
      0 \<le> bird_y b \<and> bird_y b \<le> 730 \<and> 0 \<le> bird_height b \<and> bird_height b \<le> 730 \<and>
      flight (nat (bird_time b)) (bird_speed b) \<le> bird_y b \<and>
      0 \<le> get_height (bird_image b))"

definition session_inv :: "game \<Rightarrow> bool" where
  "session_inv g = (ground_y (ground g) = 730 \<and> list_all session_bird (birds g))"

text \<open>The bird images have a height that is not negative, as every surface has.\<close>

definition images_sized :: "assets \<Rightarrow> bool" where
  "images_sized a = list_all (\<lambda>s. 0 \<le> get_height s) (BIRD_IMAGES a)"

section \<open>The range of exact float arithmetic\<close>

text \<open>
  In the exact range every value that \<^verbatim>\<open>move\<close> computes is a multiple of one half below
  \<open>2\<^sup>5\<^sup>2\<close> in magnitude, and the bird of a running session is in the range: it cannot
  fall for more than 59 ticks without leaving the screen.
\<close>

lemma half_integer_Ints: "half_integer q = (2 * q \<in> \<int>)"
  unfolding half_integer_def
  by (metis Ints_of_int of_int_floor)

lemma half_integer_of_int: "half_integer (of_int k)"
  by (simp add: half_integer_Ints)

lemma half_integer_add: "half_integer p \<Longrightarrow> half_integer q \<Longrightarrow> half_integer (p + q)"
  by (simp add: half_integer_Ints distrib_left)

lemma half_integer_diff: "half_integer p \<Longrightarrow> half_integer q \<Longrightarrow> half_integer (p - q)"
  by (simp add: half_integer_Ints right_diff_distrib)

lemma half_integer_mult_int: "half_integer p \<Longrightarrow> half_integer (p * of_int k)"
proof -
  assume "half_integer p"
  then have "2 * p \<in> \<int>" by (simp add: half_integer_Ints)
  from Ints_mult[OF this Ints_of_int[of k]] show ?thesis
    by (simp add: half_integer_Ints mult.assoc)
qed

lemma half_integer_three_halves: "half_integer (1.5 * of_int k)"
proof -
  have "2 * (1.5 * of_int k) = (of_int (3 * k) :: rat)" by simp
  then show ?thesis unfolding half_integer_Ints by (metis Ints_of_int)
qed

lemma half_integer_consts: "half_integer 0" "half_integer (- 10.5)" "half_integer 16" "half_integer 2"
  "half_integer 50"
  by (simp_all add: half_integer_Ints)

lemma displacement_half_integer:
  assumes "half_integer v0"
  shows "half_integer (displacement t v0)"
proof -
  have raw: "half_integer (1.5 * of_int (t ^ 2) + v0 * of_int t)"
    by (intro half_integer_add half_integer_three_halves half_integer_mult_int assms)
  show ?thesis
    unfolding displacement_def Let_def
    using raw half_integer_diff[OF raw half_integer_consts(4)] half_integer_consts(3)
    by (simp only: if_split) blast
qed

lemma move_operations_exact:
  assumes "float_exact b"
  shows "exact_value (of_int ((bird_time b + 1) ^ 2)) \<and>
         exact_value (1.5 * of_int ((bird_time b + 1) ^ 2)) \<and>
         exact_value (bird_speed b * of_int (bird_time b + 1)) \<and>
         exact_value (1.5 * of_int ((bird_time b + 1) ^ 2) + bird_speed b * of_int (bird_time b + 1)) \<and>
         exact_value (displacement (bird_time b + 1) (bird_speed b)) \<and>
         exact_value (bird_y b + displacement (bird_time b + 1) (bird_speed b)) \<and>
         exact_value (bird_height b + 50)"
proof -
  define t where "t = bird_time b + 1"
  define T :: rat where "T = of_int t"
  have hy: "half_integer (bird_y b)" and hh: "half_integer (bird_height b)"
    and hs: "half_integer (bird_speed b)"
    and yb: "\<bar>bird_y b\<bar> \<le> 2 ^ 40" and bh: "\<bar>bird_height b\<bar> \<le> 2 ^ 40"
    and bs: "\<bar>bird_speed b\<bar> \<le> 2 ^ 20" and bt: "\<bar>bird_time b\<bar> \<le> 2 ^ 20"
    using assms by (simp_all add: float_exact_def)
  have "\<bar>t\<bar> \<le> 2 ^ 20 + 1" using bt by (simp add: t_def)
  then have "\<bar>T\<bar> \<le> of_int (2 ^ 20 + 1)" unfolding T_def
    by (metis of_int_abs of_int_le_iff)
  then have Tb: "\<bar>T\<bar> \<le> 2 ^ 20 + 1" by simp
  have T0: "0 \<le> \<bar>T\<bar>" by simp
  have "\<bar>T\<bar> * \<bar>T\<bar> \<le> (2 ^ 20 + 1) * (2 ^ 20 + 1)"
    by (intro mult_mono Tb T0) simp_all
  then have sq: "\<bar>T * T\<bar> \<le> 2 ^ 41" by (simp add: abs_mult)
  have "\<bar>bird_speed b\<bar> * \<bar>T\<bar> \<le> 2 ^ 20 * (2 ^ 20 + 1)"
    by (intro mult_mono bs Tb) simp_all
  then have sp: "\<bar>bird_speed b * T\<bar> \<le> 2 ^ 41" by (simp add: abs_mult)
  have th: "\<bar>1.5 * (T * T)\<bar> \<le> 2 ^ 42" using sq by (simp add: abs_mult)
  have raw: "\<bar>1.5 * (T * T) + bird_speed b * T\<bar> \<le> 2 ^ 43" using th sp abs_triangle_ineq[of "1.5 * (T * T)" "bird_speed b * T"] by simp
  have sqT: "of_int (t ^ 2) = T * T" by (simp add: T_def power2_eq_square)
  have d: "\<bar>displacement t (bird_speed b)\<bar> \<le> 2 ^ 44"
    unfolding displacement_def Let_def sqT T_def[symmetric] using raw
    by (auto simp: abs_if split: if_splits)
  have h1: "half_integer (of_int (t ^ 2))" by (rule half_integer_of_int)
  have h2: "half_integer (1.5 * of_int (t ^ 2))" by (rule half_integer_three_halves)
  have h3: "half_integer (bird_speed b * of_int t)" by (rule half_integer_mult_int[OF hs])
  have h4: "half_integer (1.5 * of_int (t ^ 2) + bird_speed b * of_int t)"
    by (rule half_integer_add[OF h2 h3])
  have h5: "half_integer (displacement t (bird_speed b))"
    by (rule displacement_half_integer[OF hs])
  have h6: "half_integer (bird_y b + displacement t (bird_speed b))"
    by (rule half_integer_add[OF hy h5])
  have h7: "half_integer (bird_height b + 50)"
    by (rule half_integer_add[OF hh half_integer_consts(5)])
  have b6: "\<bar>bird_y b + displacement t (bird_speed b)\<bar> \<le> 2 ^ 45" using yb d abs_triangle_ineq[of "bird_y b" "displacement t (bird_speed b)"] by simp
  have b7: "\<bar>bird_height b + 50\<bar> \<le> 2 ^ 41" using bh abs_triangle_ineq[of "bird_height b" 50] by simp
  show ?thesis
    unfolding exact_value_def t_def[symmetric]
    using h1 h2 h3 h4 h5 h6 h7 sq th sp raw d b6 b7
    unfolding sqT T_def[symmetric]
    by simp
qed

lemma displacement_late:
  assumes "9 \<le> t" and "v0 = 0 \<or> v0 = - 10.5"
  shows "displacement t v0 = 16"
proof -
  define T :: rat where "T = of_int t"
  have T9: "9 \<le> T" using assms(1) unfolding T_def by (metis of_int_le_iff of_int_numeral)
  have "0 \<le> (T - 9) * (3 * T + 6)" using T9 by (intro mult_nonneg_nonneg) simp_all
  moreover have "(T - 9) * (3 * T + 6) = 3 * (T * T) - 21 * T - 54"
    by (simp add: algebra_simps)
  ultimately have "32 < 3 * (T * T) - 21 * T" by linarith
  then have low: "16 < 1.5 * (T * T) - 10.5 * T" by simp
  have "0 \<le> 10.5 * T" using T9 by simp
  with low have "16 < 1.5 * (T * T) + v0 * T" using assms(2) by auto
  then show ?thesis
    unfolding displacement_def Let_def T_def by (simp add: power2_eq_square)
qed

lemma flight_late:
  assumes "v0 = 0 \<or> v0 = - 10.5"
  shows "flight (9 + k) v0 = flight 9 v0 + 16 * of_nat k"
proof (induction k)
  case 0
  then show ?case by simp
next
  case (Suc k)
  have d: "displacement (int (Suc (9 + k))) v0 = 16"
    by (rule displacement_late[OF _ assms]) simp
  have "flight (9 + Suc k) v0 = flight (9 + k) v0 + displacement (int (Suc (9 + k))) v0"
    by (simp only: add_Suc_right flight.simps)
  also have "\<dots> = flight 9 v0 + 16 * of_nat k + 16"
    by (simp only: d Suc)
  also have "\<dots> = flight 9 v0 + 16 * of_nat (Suc k)"
    by (simp only: of_nat_Suc distrib_left mult_1_right add.assoc add.commute)
  finally show ?case .
qed

lemma flight_early:
  "\<forall>n \<in> set [0 ..< 10]. 16 * of_nat n - 212 \<le> flight n 0 \<and> 16 * of_nat n - 212 \<le> flight n (- 10.5)"
  by code_simp

lemma flight_lower:
  assumes "v0 = 0 \<or> v0 = - 10.5"
  shows "16 * of_nat n - 212 \<le> flight n v0"
proof (cases "n < 10")
  case True
  then have "n \<in> set [0 ..< 10]" by simp
  with flight_early assms show ?thesis by blast
next
  case False
  then have "n = 9 + (n - 9)" by simp
  then obtain k where n: "n = 9 + k" ..
  have "9 \<in> set [0 ..< (10::nat)]" by simp
  with flight_early assms have "16 * of_nat 9 - 212 \<le> flight 9 v0" by blast
  then show ?thesis unfolding n flight_late[OF assms] by simp
qed

lemma session_bird_exact:
  assumes "session_bird b"
  shows "float_exact b \<and> float_exact (jump b)"
proof -
  have sp: "bird_speed b = 0 \<or> bird_speed b = - 10.5" and t0: "0 \<le> bird_time b"
    and hy: "half_integer (bird_y b)" and hh: "half_integer (bird_height b)"
    and y: "0 \<le> bird_y b" "bird_y b \<le> 730" and h: "0 \<le> bird_height b" "bird_height b \<le> 730"
    and fl: "flight (nat (bird_time b)) (bird_speed b) \<le> bird_y b"
    using assms by (simp_all add: session_bird_def)
  from flight_lower[OF sp, of "nat (bird_time b)"] fl y(2)
  have "16 * (of_nat (nat (bird_time b)) :: rat) \<le> 942" by simp
  then have "(of_nat (nat (bird_time b)) :: rat) \<le> 59" by simp
  then have "nat (bird_time b) \<le> 59" by (metis of_nat_le_iff of_nat_numeral)
  with t0 have tb: "\<bar>bird_time b\<bar> \<le> 2 ^ 20" by simp
  have hs: "half_integer (bird_speed b)" using sp half_integer_consts by auto
  have sb: "\<bar>bird_speed b\<bar> \<le> 2 ^ 20" using sp by auto
  show ?thesis
    unfolding float_exact_def jump_def
    using hy hh hs y h tb sb half_integer_consts by simp
qed

lemma session_bird_init: "0 \<le> get_height (bird1 a) \<Longrightarrow> session_bird (Bird_init a 230 350)"
  by (simp add: session_bird_def Bird_init_def half_integer_Ints IMGS_def BIRD_IMAGES_def)

lemma session_bird_jump: "session_bird b \<Longrightarrow> session_bird (jump b)"
  by (simp add: session_bird_def jump_def)

lemma session_bird_move:
  assumes "session_bird b" and "\<not> out_of_bounds gr (Bird_move b)" and "ground_y gr = 730"
  shows "session_bird (Bird_move b)"
proof -
  define d where "d = displacement (bird_time b + 1) (bird_speed b)"
  have sp: "bird_speed b = 0 \<or> bird_speed b = - 10.5" and t0: "0 \<le> bird_time b"
    and hy: "half_integer (bird_y b)" and hh: "half_integer (bird_height b)"
    and h: "0 \<le> bird_height b" "bird_height b \<le> 730"
    and fl: "flight (nat (bird_time b)) (bird_speed b) \<le> bird_y b"
    and im: "0 \<le> get_height (bird_image b)"
    using assms(1) by (simp_all add: session_bird_def)
  have f: "bird_y (Bird_move b) = bird_y b + d" "bird_time (Bird_move b) = bird_time b + 1"
    "bird_speed (Bird_move b) = bird_speed b" "bird_height (Bird_move b) = bird_height b"
    "bird_image (Bird_move b) = bird_image b"
    by (simp_all add: Bird_move_def Let_def d_def)
  have hs: "half_integer (bird_speed b)" using sp half_integer_consts by auto
  have hd: "half_integer (bird_y b + d)"
    unfolding d_def by (intro half_integer_add hy displacement_half_integer hs)
  from assms(2,3) have yb: "0 \<le> bird_y b + d" "bird_y b + d + of_int (get_height (bird_image b)) \<le> 730"
    by (simp_all add: out_of_bounds_def f)
  have "(0::rat) \<le> of_int (get_height (bird_image b))" using im by simp
  with yb(2) have y2: "bird_y b + d \<le> 730" by linarith
  have n: "nat (bird_time b + 1) = Suc (nat (bird_time b))" using t0 by simp
  have "int (Suc (nat (bird_time b))) = bird_time b + 1" using t0 by simp
  then have "flight (nat (bird_time b + 1)) (bird_speed b) = flight (nat (bird_time b)) (bird_speed b) + d"
    unfolding n d_def by (simp add: add.commute)
  with fl have fl2: "flight (nat (bird_time b + 1)) (bird_speed b) \<le> bird_y b + d" by simp
  show ?thesis
    unfolding session_bird_def f using sp t0 hd hh yb(1) y2 h fl2 im by simp
qed

lemma session_bird_draw:
  assumes "images_sized a" and "session_bird b"
  shows "session_bird (Bird_draw a b)"
proof -
  have i: "0 \<le> get_height (IMGS a ! 0)" "0 \<le> get_height (IMGS a ! 1)" "0 \<le> get_height (IMGS a ! 2)"
    using assms(1) by (simp_all add: images_sized_def IMGS_def BIRD_IMAGES_def)
  from assms(2) i show ?thesis
    unfolding session_bird_def Bird_draw_def Let_def by simp
qed

section \<open>The bird's physics\<close>

text \<open>
  Claim C1: one call of \<^verbatim>\<open>move\<close> increments the elapsed-tick counter by one and then adds
  to \<open>y\<close> the displacement \<open>1.5 t\<^sup>2 + v0 t\<close> of the incremented \<open>t\<close>, where \<open>v0\<close> is the
  speed (0 in a new bird, \<open>-10.5\<close> after a jump, unchanged by a move), capped at 16 and
  lowered by 2 when the raw value is negative. At \<open>t = 0, 1, 2, 10\<close> the displacement is
  0, 1.5, 6, 16 for \<open>v0 = 0\<close> and 0, -11, -17, 16 for \<open>v0 = -10.5\<close>. This is stated for
  every bird in the range where the float arithmetic of \<^verbatim>\<open>move\<close> is exact, which holds
  every bird of a running session; there the new \<open>y\<close> is again a value that a float
  holds exactly.
\<close>

theorem move_displacement:
  assumes "float_exact b"
  shows "bird_time (Bird_move b) = bird_time b + 1 \<and>
   bird_y (Bird_move b) =
     bird_y b + (let t = of_int (bird_time b + 1); raw = 1.5 * t ^ 2 + bird_speed b * t
                 in if raw < 0 then raw - 2 else min raw 16) \<and>
   exact_value (bird_y (Bird_move b)) \<and>
   bird_speed (Bird_move b) = bird_speed b \<and>
   bird_speed (Bird_init a x y) = 0 \<and>
   bird_speed (jump b) = - 10.5 \<and>
   displacement 0 0 = 0 \<and> displacement 1 0 = 1.5 \<and>
   displacement 2 0 = 6 \<and> displacement 10 0 = 16 \<and>
   displacement 0 (- 10.5) = 0 \<and> displacement 1 (- 10.5) = - 11 \<and>
   displacement 2 (- 10.5) = - 17 \<and> displacement 10 (- 10.5) = 16"
proof -
  have y: "bird_y (Bird_move b) = bird_y b + displacement (bird_time b + 1) (bird_speed b)"
    by (simp add: Bird_move_def Let_def)
  from move_operations_exact[OF assms] have "exact_value (bird_y (Bird_move b))"
    unfolding y by blast
  then show ?thesis
    by (simp add: Bird_move_def displacement_def Let_def jump_def Bird_init_def min_def)
qed

lemma new_bird_exact:
  "float_exact (Bird_init example_assets 230 350) \<and>
   float_exact (jump (Bird_init example_assets 230 350))"
  by code_simp

theorem move_displacement_witness:
  "float_exact (Bird_init example_assets 230 350) \<and>
   bird_time (Bird_move (Bird_init example_assets 230 350)) = 1 \<and>
   bird_y (Bird_move (Bird_init example_assets 230 350)) = 351.5 \<and>
   exact_value (bird_y (Bird_move (Bird_init example_assets 230 350))) \<and>
   float_exact (jump (Bird_init example_assets 230 350)) \<and>
   bird_time (Bird_move (jump (Bird_init example_assets 230 350))) = 1 \<and>
   bird_y (Bird_move (jump (Bird_init example_assets 230 350))) = 339"
proof -
  have e1: "float_exact (Bird_init example_assets 230 350)"
    and e2: "float_exact (jump (Bird_init example_assets 230 350))"
    using new_bird_exact by simp_all
  from move_displacement[OF e1, of example_assets 230 350]
    move_displacement[OF e2, of example_assets 230 350] e1 e2
  show ?thesis
    by (simp add: Bird_init_def jump_def Let_def)
qed

text \<open>
  Claim C7: \<^verbatim>\<open>jump\<close> sets the speed to \<open>-10.5\<close>, the elapsed time to 0 and the reference
  height to the current \<open>y\<close>, whatever the bird's state, and leaves every other field as
  it was. It is a total function: there is no state in which it fails.
\<close>

theorem jump_effect:
  "bird_speed (jump b) = - 10.5 \<and> bird_time (jump b) = 0 \<and> bird_height (jump b) = bird_y b \<and>
   bird_x (jump b) = bird_x b \<and> bird_y (jump b) = bird_y b \<and>
   bird_angle (jump b) = bird_angle b \<and> bird_image_count (jump b) = bird_image_count b \<and>
   bird_image (jump b) = bird_image b"
  by (simp add: jump_def)

lemma jump_idem: "jump (jump b) = jump b"
  by (simp add: jump_def)

lemma handle_events_no_quit:
  "QUIT \<notin> set es \<Longrightarrow>
   handle_events es bs = Some (if KEYDOWN K_SPACE \<in> set es then map jump bs else bs)"
  by (induction es arbitrary: bs) (auto simp: jump_idem comp_def)

lemma handle_events_quit: "QUIT \<in> set es \<Longrightarrow> handle_events es bs = None"
  by (induction es arbitrary: bs) auto

text \<open>
  Claim C9: jumping is idempotent between two moves. Any number of further \<^verbatim>\<open>jump\<close> calls
  right after one leaves the bird as the first did, and the event loop of one tick,
  however many space presses it polls among its events, leaves the birds as a single
  jump of each does.
\<close>

theorem jump_idempotent:
  "(jump ^^ Suc n) b = jump b \<and>
   handle_events (filter (\<lambda>e. e \<noteq> QUIT) es) bs =
     Some (if KEYDOWN K_SPACE \<in> set es then map jump bs else bs)"
proof
  show "(jump ^^ Suc n) b = jump b"
    by (induction n) (simp_all add: jump_idem)
next
  have "QUIT \<notin> set (filter (\<lambda>e. e \<noteq> QUIT) es)" by simp
  from handle_events_no_quit[OF this]
  show "handle_events (filter (\<lambda>e. e \<noteq> QUIT) es) bs =
     Some (if KEYDOWN K_SPACE \<in> set es then map jump bs else bs)"
    by simp
qed

section \<open>Pipes\<close>

lemma collide_frame: "collide p b = (fst (collide p b), p, b)"
  by (simp add: collide_def Let_def)

lemma pipe_birds_geometry:
  "pipe_birds p bs add_pipe = Some (p', bs', add') \<Longrightarrow>
   pipe_height p' = pipe_height p \<and> top_pos p' = top_pos p \<and> bottom_pos p' = bottom_pos p"
proof (induction bs arbitrary: p add_pipe p' bs' add')
  case Nil
  then show ?case by simp
next
  case (Cons b bs)
  show ?case
  proof (cases "passes (bird_x b) p")
    case True
    with Cons.prems obtain q bs2 add2 where
      "pipe_birds (p\<lparr>passed := True\<rparr>) bs True = Some (q, bs2, add2)" "p' = q"
      using collide_frame[of p b]
      by (cases "collide p b") (auto simp: passes_def split: if_splits option.splits)
    with Cons.IH[of "p\<lparr>passed := True\<rparr>" True q bs2 add2] show ?thesis by simp
  next
    case False
    with Cons.prems obtain q bs2 add2 where
      "pipe_birds p bs add_pipe = Some (q, bs2, add2)" "p' = q"
      using collide_frame[of p b]
      by (cases "collide p b") (auto simp: passes_def split: if_splits option.splits)
    with Cons.IH[of p add_pipe q bs2 add2] show ?thesis by simp
  qed
qed

lemma sweep_geometry:
  "sweep ps bs add_pipe = Some (swept, bs', add') \<Longrightarrow>
   map pipe_height (map fst swept) = map pipe_height ps \<and>
   map top_pos (map fst swept) = map top_pos ps \<and>
   map bottom_pos (map fst swept) = map bottom_pos ps"
proof (induction ps arbitrary: bs add_pipe swept bs' add')
  case Nil
  then show ?case by simp
next
  case (Cons p ps)
  from Cons.prems obtain p1 bs1 add1 rest bs2 add2 where
    pb: "pipe_birds p bs add_pipe = Some (p1, bs1, add1)" and
    sw: "sweep ps bs1 add1 = Some (rest, bs2, add2)" and
    eq: "swept = (Pipe_move p1, pipe_x (Pipe_move p1) + get_width (PIPE_TOP (Pipe_move p1)) < 0) # rest"
    by (auto simp: Let_def split: option.splits)
  from pipe_birds_geometry[OF pb] Cons.IH[OF sw] eq show ?case
    by (simp add: Pipe_move_def)
qed

lemma two_behind_sweep:
  "sweep (pipes two_behind) [Bird_move (Bird_init example_assets 230 350)] False =
     Some (two_behind_swept, [Bird_move (Bird_init example_assets 230 350)], True)"
  by code_simp

text \<open>
  Claim C6: the gap height of a pipe, drawn when the pipe is created, lies in
  \<open>[50, 475)\<close>; its top edge is the gap height minus the height of the top image (which
  is the height of the pipe image) and its bottom edge is the gap height plus 200.
  Moving the pipe changes none of the three, and neither does the sweep of the main
  loop, whatever the birds: the pipes it hands on have the gap heights and edges of the
  pipes it was given, in the same order.
\<close>

theorem pipe_gap_geometry:
  "50 \<le> pipe_height (Pipe_init a x r) \<and> pipe_height (Pipe_init a x r) < 475 \<and>
   top_pos (Pipe_init a x r) =
     pipe_height (Pipe_init a x r) - get_height (PIPE_TOP (Pipe_init a x r)) \<and>
   bottom_pos (Pipe_init a x r) = pipe_height (Pipe_init a x r) + 200 \<and>
   get_height (PIPE_TOP (Pipe_init a x r)) = get_height (PIPE_IMAGE a) \<and>
   pipe_height (Pipe_move p) = pipe_height p \<and> top_pos (Pipe_move p) = top_pos p \<and>
   bottom_pos (Pipe_move p) = bottom_pos p \<and>
   (sweep ps bs False = Some (swept, bs', add') \<longrightarrow>
      map pipe_height (map fst swept) = map pipe_height ps \<and>
      map top_pos (map fst swept) = map top_pos ps \<and>
      map bottom_pos (map fst swept) = map bottom_pos ps)"
  using sweep_geometry[of ps bs False swept bs' add']
  by (simp add: Pipe_init_def set_height_def randrange_def Let_def DISTANCE_def
      flip_vertical_def Pipe_move_def)

theorem pipe_gap_geometry_witness:
  "sweep (pipes two_behind) [Bird_move (Bird_init example_assets 230 350)] False =
     Some (two_behind_swept, [Bird_move (Bird_init example_assets 230 350)], True) \<and>
   map pipe_height (map fst two_behind_swept) = map pipe_height (pipes two_behind) \<and>
   map top_pos (map fst two_behind_swept) = map top_pos (pipes two_behind) \<and>
   map bottom_pos (map fst two_behind_swept) = map bottom_pos (pipes two_behind) \<and>
   50 \<le> pipe_height (Pipe_init example_assets 600 7) \<and>
   pipe_height (Pipe_init example_assets 600 7) < 475 \<and>
   bottom_pos (Pipe_init example_assets 600 7) = pipe_height (Pipe_init example_assets 600 7) + 200"
  using two_behind_sweep
    pipe_gap_geometry[of example_assets 600 7 near_pipe "pipes two_behind"
      "[Bird_move (Bird_init example_assets 230 350)]" two_behind_swept
      "[Bird_move (Bird_init example_assets 230 350)]" True]
  by simp

section \<open>The collision test\<close>

lemma overlap_placed:
  "(overlap m other (ox - bx, oy - by) \<noteq> None) =
   (placed (bx, by) m \<inter> placed (ox, oy) other \<noteq> {})"
proof -
  have "(overlap m other (ox - bx, oy - by) \<noteq> None) =
        (\<exists>(i, j) \<in> set m. (i - (ox - bx), j - (oy - by)) \<in> set other)"
    unfolding overlap_def find_None_iff by auto
  also have "\<dots> = (\<exists>(i, j) \<in> set m. \<exists>(u, v) \<in> set other. bx + i = ox + u \<and> by + j = oy + v)"
  proof -
    have "\<And>i j. ((i - (ox - bx), j - (oy - by)) \<in> set other) =
            (\<exists>(u, v) \<in> set other. bx + i = ox + u \<and> by + j = oy + v)"
    proof
      fix i j
      assume "(i - (ox - bx), j - (oy - by)) \<in> set other"
      then show "\<exists>(u, v) \<in> set other. bx + i = ox + u \<and> by + j = oy + v"
        by (intro bexI[where x = "(i - (ox - bx), j - (oy - by))"]) auto
    next
      fix i j
      assume "\<exists>(u, v) \<in> set other. bx + i = ox + u \<and> by + j = oy + v"
      then obtain u v where uv: "(u, v) \<in> set other" "bx + i = ox + u" "by + j = oy + v"
        by auto
      then have "i - (ox - bx) = u" "j - (oy - by) = v" by auto
      with uv(1) show "(i - (ox - bx), j - (oy - by)) \<in> set other" by simp
    qed
    then show ?thesis by simp
  qed
  also have "\<dots> = (placed (bx, by) m \<inter> placed (ox, oy) other \<noteq> {})"
    unfolding placed_def by (auto simp: image_iff) force+
  finally show ?thesis .
qed

lemma collide_masks_overlap: "fst (collide p b) = masks_overlap p b"
proof -
  have "fst (collide p b) =
        (overlap (get_mask b) (from_surface (PIPE_TOP p))
           (pipe_x p - bird_x b, top_pos p - py_round (bird_y b)) \<noteq> None \<or>
         overlap (get_mask b) (from_surface (PIPE_BOTTOM p))
           (pipe_x p - bird_x b, bottom_pos p - py_round (bird_y b)) \<noteq> None)"
    by (simp add: collide_def Let_def)
  also have "\<dots> = masks_overlap p b"
    unfolding overlap_placed masks_overlap_def by blast
  finally show ?thesis .
qed

lemma near_pipe_hit: "fst (collide near_pipe (Bird_init example_assets 230 350))"
  by code_simp

lemma seed_pipe_miss:
  "\<not> fst (collide (Pipe_init example_assets 700 0) (Bird_init example_assets 230 350))"
  by code_simp

text \<open>
  Claim C10: \<^verbatim>\<open>collide\<close> is a pure query. For every pipe and every bird the call leaves
  the pipe and the bird exactly as they were, in every field, so a second call on the
  state left by the first returns the same boolean; and the boolean says whether the
  bird's mask, placed at \<^verbatim>\<open>(x, round(y))\<close>, shares a pixel with the top or the bottom
  pipe mask.
\<close>

theorem collide_pure:
  "snd (collide p b) = (p, b) \<and>
   fst (collide (fst (snd (collide p b))) (snd (snd (collide p b)))) = fst (collide p b) \<and>
   fst (collide p b) = masks_overlap p b"
  using collide_frame[of p b] collide_masks_overlap[of p b]
  by (metis fst_conv snd_conv)

theorem collide_pure_witness:
  "collide near_pipe (Bird_init example_assets 230 350) =
     (True, near_pipe, Bird_init example_assets 230 350) \<and>
   masks_overlap near_pipe (Bird_init example_assets 230 350) \<and>
   collide (Pipe_init example_assets 700 0) (Bird_init example_assets 230 350) =
     (False, Pipe_init example_assets 700 0, Bird_init example_assets 230 350)"
  using collide_pure[of near_pipe "Bird_init example_assets 230 350"]
    collide_pure[of "Pipe_init example_assets 700 0" "Bird_init example_assets 230 350"]
    near_pipe_hit seed_pipe_miss
  by (metis prod.collapse)

section \<open>The ground\<close>

lemma ground_inv_move: "5 \<le> WIDTH a \<Longrightarrow> ground_inv a g \<Longrightarrow> ground_inv a (Ground_move a g)"
  unfolding ground_inv_def Ground_move_def Let_def Ground_SPEED_def
  by (auto split: if_splits)

lemma ground_inv_moves:
  "5 \<le> WIDTH a \<Longrightarrow> ground_inv a g \<Longrightarrow> ground_inv a (ground_moves a n g)"
  by (induction n arbitrary: g) (simp_all add: ground_inv_move)

lemma ground_inv_init: "0 \<le> WIDTH a \<Longrightarrow> ground_inv a (Ground_init a y)"
  by (simp add: ground_inv_def Ground_init_def)

text \<open>
  Claim C4: from the initial ground (\<open>x1 = 0\<close>, \<open>x2 = WIDTH\<close>), after any number of moves,
  one of the two tile positions lies in \<open>(-WIDTH, WIDTH]\<close> and every screen column
  \<open>px\<close> of \<open>[0, SCREEN_WIDTH)\<close> is under one of the two tiles. The tile width is the width
  of the ground image, which is not in the sources; the tiles can cover the screen only
  when a tile is at least as wide as the screen, as the game's image is.
\<close>

theorem ground_covers_screen:
  assumes "SCREEN_WIDTH \<le> WIDTH a" and "0 \<le> px" and "px < SCREEN_WIDTH"
  shows "((- WIDTH a < x1 (ground_moves a n (Ground_init a y)) \<and>
           x1 (ground_moves a n (Ground_init a y)) \<le> WIDTH a) \<or>
          (- WIDTH a < x2 (ground_moves a n (Ground_init a y)) \<and>
           x2 (ground_moves a n (Ground_init a y)) \<le> WIDTH a)) \<and>
         ((x1 (ground_moves a n (Ground_init a y)) \<le> px \<and>
           px < x1 (ground_moves a n (Ground_init a y)) + WIDTH a) \<or>
          (x2 (ground_moves a n (Ground_init a y)) \<le> px \<and>
           px < x2 (ground_moves a n (Ground_init a y)) + WIDTH a))"
proof -
  have w: "500 \<le> WIDTH a" using assms(1) by (simp add: SCREEN_WIDTH_def)
  then have "ground_inv a (ground_moves a n (Ground_init a y))"
    by (intro ground_inv_moves ground_inv_init) simp_all
  with w assms(2,3) show ?thesis
    unfolding ground_inv_def SCREEN_WIDTH_def by auto
qed

lemma ground_after_wrap:
  "ground_moves example_assets 136 (Ground_init example_assets 730) =
     \<lparr>ground_y = 730, x1 = 664, x2 = - 8\<rparr>"
  by code_simp

theorem ground_covers_screen_witness:
  "SCREEN_WIDTH \<le> WIDTH example_assets \<and> (0::int) \<le> 499 \<and> 499 < SCREEN_WIDTH \<and>
   x1 (ground_moves example_assets 136 (Ground_init example_assets 730)) = 664 \<and>
   x2 (ground_moves example_assets 136 (Ground_init example_assets 730)) = - 8 \<and>
   x2 (ground_moves example_assets 136 (Ground_init example_assets 730)) \<le> 499 \<and>
   499 < x2 (ground_moves example_assets 136 (Ground_init example_assets 730))
           + WIDTH example_assets"
proof -
  have h1: "SCREEN_WIDTH \<le> WIDTH example_assets"
    by (simp add: SCREEN_WIDTH_def WIDTH_def example_assets_def)
  have h2: "(0::int) \<le> 499" by simp
  have h3: "499 < SCREEN_WIDTH" by (simp add: SCREEN_WIDTH_def)
  from ground_covers_screen[OF h1 h2 h3, of 136 730] h1 h2 h3 show ?thesis
    by (simp add: ground_after_wrap)
qed

section \<open>One tick of the session\<close>

lemma pipe_birds_single:
  "pipe_birds p [b] add_pipe =
     (if masks_overlap p b then None
      else Some (mark (bird_x b) p, [b], add_pipe \<or> passes (bird_x b) p))"
  using collide_frame[of p b] collide_masks_overlap[of p b]
  by (cases "collide p b") (auto simp: mark_def passes_def)

lemma sweep_single:
  "sweep ps [b] add_pipe =
     (if list_ex (\<lambda>p. masks_overlap p b) ps then None
      else Some (map (\<lambda>p. (Pipe_move (mark (bird_x b) p),
                            off_screen (Pipe_move (mark (bird_x b) p)))) ps,
                 [b], add_pipe \<or> list_ex (passes (bird_x b)) ps))"
  by (induction ps arbitrary: add_pipe)
     (auto simp: pipe_birds_single Let_def off_screen_def simp del: pipe_birds.simps)

lemma ground_y_move: "ground_y (Ground_move a g) = ground_y g"
  by (simp add: Ground_move_def Let_def)

lemma bird_x_move: "bird_x (Bird_move b) = bird_x b"
  by (simp add: Bird_move_def Let_def)

lemma bird_x_jump: "bird_x (jump b) = bird_x b"
  by (simp add: jump_def)

lemma retire_swept:
  "retire (map (\<lambda>p. (f p, off_screen (f p))) ps) = filter (\<lambda>p. \<not> off_screen p) (map f ps)"
  by (induction ps) (simp_all add: retire_def)

lemma retire_snoc: "retire (xs @ [(p, False)]) = retire xs @ [p]"
  by (simp add: retire_def)

lemma tick_single:
  assumes "birds g = [b]" and "QUIT \<notin> set es"
  shows "tick a es r g =
    (let b' = Bird_move (if KEYDOWN K_SPACE \<in> set es then jump b else b);
         add_pipe = list_ex (passes (bird_x b)) (pipes g);
         score1 = (if add_pipe then score g + 1 else score g)
     in if list_ex (\<lambda>p. masks_overlap p b') (pipes g) then Ended (score g)
        else if out_of_bounds (ground g) b' then Ended score1
        else Running \<lparr>birds = [Bird_draw a b'], ground = Ground_move a (ground g),
               pipes = filter (\<lambda>p. \<not> off_screen p)
                         (map (\<lambda>p. Pipe_move (mark (bird_x b) p)) (pipes g))
                       @ (if add_pipe then [Pipe_init a 600 r] else []),
               score = score1\<rparr>)"
proof -
  have oob: "\<And>x. out_of_bounds (Ground_move a (ground g)) x = out_of_bounds (ground g) x"
    by (simp add: out_of_bounds_def ground_y_move)
  show ?thesis
    unfolding tick_def handle_events_no_quit[OF assms(2)] assms(1)
    by (simp add: sweep_single Let_def bird_x_move bird_x_jump retire_swept oob retire_snoc)
qed

text \<open>
  \<^verbatim>\<open>main\<close> starts with one bird, and a tick that goes on leaves one bird.
\<close>

lemma single_bird_kept:
  "birds (main_init a r0) = [Bird_init a 230 350] \<and>
   (birds g = [b] \<and> tick a es r g = Running g' \<longrightarrow> (\<exists>b'. birds g' = [b']))"
proof (intro conjI impI)
  show "birds (main_init a r0) = [Bird_init a 230 350]"
    by (simp add: main_init_def)
next
  assume h: "birds g = [b] \<and> tick a es r g = Running g'"
  have nq: "QUIT \<notin> set es"
  proof
    assume "QUIT \<in> set es"
    then have "tick a es r g = Exited" by (simp add: tick_def handle_events_quit)
    with h show False by simp
  qed
  from h show "\<exists>b'. birds g' = [b']"
    unfolding tick_single[OF conjunct1[OF h] nq] Let_def
    by (auto split: if_splits)
qed

text \<open>
  Every bird that the game moves is in the range of exact float arithmetic: a session
  starts in \<open>session_inv\<close>, a tick that goes on keeps it, and it puts the bird, jumped
  or not, in the range.
\<close>

lemma session_moves_exact:
  assumes "images_sized a"
  shows "session_inv (main_init a r0) \<and>
         (birds g = [b] \<and> session_inv g \<and> tick a es r g = Running g' \<longrightarrow> session_inv g') \<and>
         (birds g = [b] \<and> session_inv g \<longrightarrow> float_exact b \<and> float_exact (jump b))"
proof -
  have "0 \<le> get_height (bird1 a)"
    using assms by (simp add: images_sized_def BIRD_IMAGES_def)
  from session_bird_init[OF this] have start: "session_inv (main_init a r0)"
    by (simp add: session_inv_def main_init_def Ground_init_def)
  have step: "session_inv g'"
    if h: "birds g = [b] \<and> session_inv g \<and> tick a es r g = Running g'"
  proof -
    from h have bg: "birds g = [b]" and sb: "session_bird b"
      and gy: "ground_y (ground g) = 730" and run: "tick a es r g = Running g'"
      by (auto simp: session_inv_def)
    have nq: "QUIT \<notin> set es"
    proof
      assume "QUIT \<in> set es"
      then have "tick a es r g = Exited" by (simp add: tick_def handle_events_quit)
      with run show False by simp
    qed
    define b0 where "b0 = (if KEYDOWN K_SPACE \<in> set es then jump b else b)"
    have s0: "session_bird b0" using sb session_bird_jump[OF sb] by (simp add: b0_def)
    from run have nb: "\<not> out_of_bounds (ground g) (Bird_move b0)"
      and g': "birds g' = [Bird_draw a (Bird_move b0)]" "ground g' = Ground_move a (ground g)"
      unfolding tick_single[OF bg nq] Let_def b0_def[symmetric]
      by (auto split: if_splits)
    from session_bird_draw[OF assms session_bird_move[OF s0 nb gy]] gy
    show ?thesis
      by (simp add: session_inv_def g' ground_y_move)
  qed
  have inside: "float_exact b \<and> float_exact (jump b)" if "birds g = [b] \<and> session_inv g"
  proof -
    from that have "session_bird b" by (auto simp: session_inv_def)
    from session_bird_exact[OF this] show ?thesis .
  qed
  from start step inside show ?thesis by blast
qed

text \<open>
  Claim C2: in a session with one bird (as \<^verbatim>\<open>main\<close> creates it) and a tick without a
  \<^verbatim>\<open>QUIT\<close> event, the tick ends the session exactly when, for the bird as it stands
  after this tick's jump (if space was pressed) and move, (a) its mask overlaps the top
  or bottom mask of one of the pipes, or (b) its \<open>y\<close> plus the height of its image is
  greater than the ground's \<open>y\<close>, or (c) its \<open>y\<close> is negative; otherwise the session
  goes on running.
\<close>

theorem session_transition:
  assumes "birds g = [b]" and "QUIT \<notin> set es"
  shows "((\<exists>s. tick a es r g = Ended s) =
            terminal (ground g) (pipes g)
              (Bird_move (if KEYDOWN K_SPACE \<in> set es then jump b else b))) \<and>
         ((\<exists>g'. tick a es r g = Running g') =
            (\<not> terminal (ground g) (pipes g)
                (Bird_move (if KEYDOWN K_SPACE \<in> set es then jump b else b))))"
  unfolding tick_single[OF assms] terminal_def out_of_bounds_def Let_def
  by auto

lemma low_game_terminal:
  "terminal (ground low_game) (pipes low_game) (Bird_move low_bird)"
  by code_simp

lemma two_behind_not_terminal:
  "\<not> terminal (ground two_behind) (pipes two_behind) (Bird_move (Bird_init example_assets 230 350))"
  by code_simp

lemma low_game_birds: "birds low_game = [low_bird]"
  by (simp add: low_game_def)

lemma two_behind_birds: "birds two_behind = [Bird_init example_assets 230 350]"
  by (simp add: two_behind_def)

theorem session_transition_witness:
  "birds low_game = [low_bird] \<and> QUIT \<notin> set [] \<and>
   terminal (ground low_game) (pipes low_game) (Bird_move low_bird) \<and>
   (\<exists>s. tick example_assets [] 0 low_game = Ended s) \<and>
   birds two_behind = [Bird_init example_assets 230 350] \<and>
   \<not> terminal (ground two_behind) (pipes two_behind) (Bird_move (Bird_init example_assets 230 350)) \<and>
   (\<exists>g'. tick example_assets [] 7 two_behind = Running g')"
proof -
  have nq: "QUIT \<notin> set []" by simp
  from session_transition[OF low_game_birds nq, of example_assets 0] low_game_terminal
  have e: "\<exists>s. tick example_assets [] 0 low_game = Ended s" by simp
  from session_transition[OF two_behind_birds nq, of example_assets 7] two_behind_not_terminal
  have r: "\<exists>g'. tick example_assets [] 7 two_behind = Running g'" by simp
  from e r low_game_birds two_behind_birds nq low_game_terminal two_behind_not_terminal
  show ?thesis by blast
qed

lemma two_behind_tick: "tick example_assets [] 7 two_behind = Running two_behind_next"
  by code_simp

lemma two_behind_passes: "length (filter (passes 230) (pipes two_behind)) = 2"
  by code_simp

text \<open>
  Claim C3, as amended: if \<open>n \<ge> 1\<close> pipes are passed by the bird in the same tick (each
  with \<^verbatim>\<open>passed\<close> false before and the bird's \<open>x\<close> greater than the pipe's) and the
  session goes on, then all \<open>n\<close> of them are marked passed, but the score grows by
  exactly 1 and exactly one new pipe, at \<open>x = 600\<close>, is appended after the pipes that
  stay: the pass events of one tick are coalesced by the flag \<^verbatim>\<open>add_pipe\<close>.
\<close>

theorem one_point_per_tick:
  assumes "birds g = [b]" and "tick a es r g = Running g'"
    and "length (filter (passes (bird_x b)) (pipes g)) = n" and "1 \<le> n"
  shows "score g' = score g + 1 \<and>
         pipes g' = filter (\<lambda>p. \<not> off_screen p)
                      (map (\<lambda>p. Pipe_move (mark (bird_x b) p)) (pipes g)) @ [Pipe_init a 600 r] \<and>
         pipe_x (Pipe_init a 600 r) = 600 \<and> \<not> passed (Pipe_init a 600 r) \<and>
         length (filter passed (map (mark (bird_x b)) (pipes g))) =
           length (filter passed (pipes g)) + n"
proof -
  have nq: "QUIT \<notin> set es"
  proof
    assume "QUIT \<in> set es"
    then have "tick a es r g = Exited" by (simp add: tick_def handle_events_quit)
    with assms(2) show False by simp
  qed
  have "filter (passes (bird_x b)) (pipes g) \<noteq> []" using assms(3,4) by auto
  then have ex: "list_ex (passes (bird_x b)) (pipes g)"
    by (simp add: list_ex_iff filter_empty_conv)
  have cnt: "\<And>ps. length (filter passed (map (mark (bird_x b)) ps)) =
      length (filter passed ps) + length (filter (passes (bird_x b)) ps)"
    by (induct_tac ps) (auto simp: mark_def passes_def)
  from assms(2) show ?thesis
    unfolding tick_single[OF assms(1) nq] Let_def using ex assms(3) cnt[of "pipes g"]
    by (auto split: if_splits simp: Pipe_init_def set_height_def Let_def)
qed

lemma two_behind_bird_x: "bird_x (Bird_init example_assets 230 350) = 230"
  by (simp add: Bird_init_def)

theorem one_point_per_tick_witness:
  "birds two_behind = [Bird_init example_assets 230 350] \<and>
   tick example_assets [] 7 two_behind = Running two_behind_next \<and>
   length (filter (passes 230) (pipes two_behind)) = 2 \<and> (1::nat) \<le> 2 \<and>
   score two_behind_next = score two_behind + 1 \<and>
   pipes two_behind_next =
     filter (\<lambda>p. \<not> off_screen p) (map (\<lambda>p. Pipe_move (mark 230 p)) (pipes two_behind))
       @ [Pipe_init example_assets 600 7] \<and>
   length (filter passed (map (mark 230) (pipes two_behind))) =
     length (filter passed (pipes two_behind)) + 2"
proof -
  have p: "length (filter (passes (bird_x (Bird_init example_assets 230 350))) (pipes two_behind)) = 2"
    using two_behind_passes by (simp add: two_behind_bird_x)
  have n: "(1::nat) \<le> 2" by simp
  from one_point_per_tick[OF two_behind_birds two_behind_tick p n]
    two_behind_birds two_behind_tick two_behind_passes
  show ?thesis by (simp add: two_behind_bird_x)
qed

text \<open>
  The claim as it was stated fails: in \<open>two_behind\<close> the bird passes two pipes in one
  tick, and the score grows by 1, not 2, and one pipe is created at \<open>x = 600\<close>, not two.
\<close>

theorem two_passes_one_point:
  "length (filter (passes 230) (pipes two_behind)) = 2 \<and>
   bird_x (hd (birds two_behind)) = 230 \<and>
   tick example_assets [] 7 two_behind = Running two_behind_next \<and>
   score two_behind_next = score two_behind + 1 \<and>
   score two_behind_next \<noteq> score two_behind + 2 \<and>
   length (pipes two_behind_next) = length (pipes two_behind) + 1 \<and>
   length (filter (\<lambda>p. pipe_x p = 600) (pipes two_behind_next)) = 1"
  by code_simp

section \<open>The rotation angle\<close>

lemma angle_step:
  "bird_angle (Bird_move b) = max (bird_angle b) 25 \<or>
   (bird_angle b > - 90 \<and> bird_angle (Bird_move b) = bird_angle b - 20) \<or>
   (bird_angle b \<le> - 90 \<and> bird_angle (Bird_move b) = bird_angle b)"
  by (simp add: Bird_move_def Let_def MAX_ROTATION_def ROTATION_SPEED_def)

lemma angle_set_move:
  assumes "bird_angle b \<in> angle_set"
  shows "bird_angle (Bird_move b) \<in> angle_set"
proof -
  have le: "bird_angle b \<le> 25" using assms by (auto simp: angle_set_def)
  then have m: "max (bird_angle b) 25 = 25" by simp
  from angle_step[of b] show ?thesis
  proof (elim disjE conjE)
    assume "bird_angle (Bird_move b) = max (bird_angle b) 25"
    then show ?thesis by (simp add: m angle_set_def)
  next
    assume "bird_angle b > - 90" "bird_angle (Bird_move b) = bird_angle b - 20"
    with assms show ?thesis unfolding angle_set_def by auto
  next
    assume "bird_angle b \<le> - 90" "bird_angle (Bird_move b) = bird_angle b"
    with assms show ?thesis by simp
  qed
qed

lemma angle_set_run: "bird_angle b \<in> angle_set \<Longrightarrow> bird_angle (run ops b) \<in> angle_set"
proof (induction ops b rule: run.induct)
  case (1 b)
  then show ?case by simp
next
  case (2 as b)
  then show ?case by (simp add: jump_def)
next
  case (3 as b)
  then show ?case by (simp add: angle_set_move)
qed

lemma move_tilt:
  "bird_angle (Bird_move b) =
     tilt (displacement (bird_time b + 1) (bird_speed b) < 0 \<or>
           bird_y b + displacement (bird_time b + 1) (bird_speed b) < bird_height b + 50)
          (bird_angle b)"
  by (simp add: Bird_move_def Let_def tilt_def)

lemma angle_set_tilt: "angle \<in> angle_set \<Longrightarrow> tilt up angle \<in> angle_set"
  unfolding angle_set_def tilt_def MAX_ROTATION_def ROTATION_SPEED_def
  by (cases up) auto

lemma angle_set_tilts: "angle \<in> angle_set \<Longrightarrow> tilts ups angle \<in> angle_set"
  by (induction ups arbitrary: angle) (simp_all add: angle_set_tilt)

text \<open>
  Claim C5, as amended: for every bird at angle 0 and every sequence of \<^verbatim>\<open>jump\<close> and
  \<^verbatim>\<open>move\<close> calls, the angle stays within bounds. A move in which the bird is not rising
  (the displacement is not negative and the bird is at least 50 below its reference
  height) lowers the angle by 20 as long as the angle is above \<open>-90\<close>, and leaves it as
  it is once it is at \<open>-90\<close> or below; so the angle can pass \<open>-90\<close> by less than 20, and
  it never goes below \<open>-100\<close>. The bound is stated twice: for the runs in which every
  move is in the range of exact float arithmetic, where \<open>Bird_move\<close> is the code, and
  for every sequence of outcomes of the test in \<^verbatim>\<open>move\<close>, whatever the arithmetic that
  decides them.
\<close>

theorem angle_bounds:
  "(bird_angle b = 0 \<and> run_exact ops b \<longrightarrow> - 100 \<le> bird_angle (run ops b)) \<and>
   - 100 \<le> tilts ups 0 \<and>
   (float_exact b \<and>
    0 \<le> displacement (bird_time b + 1) (bird_speed b) \<and>
    bird_height b + 50 \<le> bird_y b + displacement (bird_time b + 1) (bird_speed b) \<longrightarrow>
      bird_angle (Bird_move b) =
        (if bird_angle b > - 90 then bird_angle b - 20 else bird_angle b))"
proof (intro conjI impI)
  assume "bird_angle b = 0 \<and> run_exact ops b"
  then have "bird_angle (run ops b) \<in> angle_set"
    by (intro angle_set_run) (simp add: angle_set_def)
  then show "- 100 \<le> bird_angle (run ops b)"
    by (auto simp: angle_set_def)
next
  have "tilts ups 0 \<in> angle_set"
    by (intro angle_set_tilts) (simp add: angle_set_def)
  then show "- 100 \<le> tilts ups 0"
    by (auto simp: angle_set_def)
next
  assume "float_exact b \<and>
    0 \<le> displacement (bird_time b + 1) (bird_speed b) \<and>
    bird_height b + 50 \<le> bird_y b + displacement (bird_time b + 1) (bird_speed b)"
  then show "bird_angle (Bird_move b) =
      (if bird_angle b > - 90 then bird_angle b - 20 else bird_angle b)"
    by (simp add: Bird_move_def Let_def ROTATION_SPEED_def)
qed

lemma falling_bird_run:
  "bird_angle falling_bird = 0 \<and>
   run_exact [Move, Move, Move, Move, Move] falling_bird \<and>
   float_exact falling_bird \<and>
   bird_angle (run [Move, Move, Move, Move, Move] falling_bird) = - 100 \<and>
   tilts [False, False, False, False, False] 0 = - 100 \<and>
   0 \<le> displacement (bird_time falling_bird + 1) (bird_speed falling_bird) \<and>
   bird_height falling_bird + 50
     \<le> bird_y falling_bird + displacement (bird_time falling_bird + 1) (bird_speed falling_bird)"
  by code_simp

theorem angle_bounds_witness:
  "bird_angle falling_bird = 0 \<and>
   run_exact [Move, Move, Move, Move, Move] falling_bird \<and>
   - 100 \<le> bird_angle (run [Move, Move, Move, Move, Move] falling_bird) \<and>
   bird_angle (run [Move, Move, Move, Move, Move] falling_bird) = - 100 \<and>
   - 100 \<le> tilts [False, False, False, False, False] 0 \<and>
   float_exact falling_bird \<and>
   0 \<le> displacement (bird_time falling_bird + 1) (bird_speed falling_bird) \<and>
   bird_height falling_bird + 50
     \<le> bird_y falling_bird + displacement (bird_time falling_bird + 1) (bird_speed falling_bird) \<and>
   bird_angle (Bird_move falling_bird) = - 20"
  using angle_bounds[of falling_bird "[Move, Move, Move, Move, Move]"
      "[False, False, False, False, False]"]
    falling_bird_run
  by simp

text \<open>
  The claim as it was stated fails: the bird that \<^verbatim>\<open>main\<close> creates, moved ten times with
  no jump, is at angle \<open>-95\<close>, below \<open>-90\<close>.
\<close>

theorem angle_below_floor:
  "bird_angle (Bird_init example_assets 230 350) = 0 \<and>
   bird_angle (run [Move, Move, Move, Move, Move, Move, Move, Move, Move, Move]
                (Bird_init example_assets 230 350)) = - 95 \<and>
   bird_angle (run [Move, Move, Move, Move, Move, Move, Move, Move, Move, Move]
                (Bird_init example_assets 230 350)) < - 90"
  by code_simp

section \<open>The animation frame\<close>

text \<open>
  Claim C8, on the code: from a new bird, whose frame counter is 0, the images chosen by
  the first 22 draws have the indices 0 (4 draws), 1 (5), 2 (5), 1 (6), 0, 0. The
  counter value 20 matches no branch of \<^verbatim>\<open>draw\<close>: the image stays and the counter is
  not reset, so the cycle restarts at the 21st draw, not the 20th.
\<close>

theorem animation_cycle:
  "map (\<lambda>n. bird_image (draws a n (Bird_init a x y))) [1 ..< 23] =
     map (\<lambda>k. IMGS a ! k) [0, 0, 0, 0, 1, 1, 1, 1, 1, 2, 2, 2, 2, 2, 1, 1, 1, 1, 1, 1, 0, 0] \<and>
   map (\<lambda>n. bird_image_count (draws a n (Bird_init a x y))) [1 ..< 23] =
     [1, 2, 3, 4, 5, 6, 7, 8, 9, 10, 11, 12, 13, 14, 15, 16, 17, 18, 19, 20, 0, 1]"
  by (simp add: upt_rec eval_nat_numeral Bird_draw_def Bird_init_def Let_def ANIMATION_TIME_def)

text \<open>
  The override holds as the claim says: at an angle of \<open>-80\<close> or less a draw chooses the
  image of index 1, whatever the counter, and sets the counter to 10.
\<close>

lemma gliding_frame:
  "bird_angle b \<le> - 80 \<Longrightarrow>
   bird_image (Bird_draw a b) = IMGS a ! 1 \<and> bird_image_count (Bird_draw a b) = 10"
  by (simp add: Bird_draw_def Let_def ANIMATION_TIME_def)

end
